theory Spec2Isabelle
  imports Main
begin

section \<open>Text and the platform's string operations\<close>

text \<open>
  The server \<^verbatim>\<open>Bun.serve({ static, fetch })\<close> of the repository validates HTTP Basic
  credentials on the route \<^verbatim>\<open>/api/data\<close>. The handler \<^verbatim>\<open>fetch(request)\<close> is embedded
  below as the function \<open>fetch\<close>.

  Representation of text. A header value is a byte string (the Fetch standard hands header
  values out as strings of code units below 256), so it is a \<^typ>\<open>string\<close>, one
  \<^typ>\<open>char\<close> per code unit. Text produced by \<^verbatim>\<open>Buffer.prototype.toString()\<close>, the
  constants \<^verbatim>\<open>USER_NAME\<close> and \<^verbatim>\<open>PASSWORD\<close>, and the response body are represented by
  their UTF-8 encoding, again a \<^typ>\<open>string\<close>. Two well-formed JavaScript strings are
  \<^verbatim>\<open>===\<close> exactly when their UTF-8 encodings are equal, and \<^verbatim>\<open>':'\<close> is the single
  byte 0x3A that occurs in no multi-byte sequence, so \<^verbatim>\<open>===\<close>, \<^verbatim>\<open>!==\<close> and
  \<^verbatim>\<open>split(':')\<close> act on the representation as they act on the strings. A constant that
  is not well-formed (a lone surrogate) has no representation; no header matches it, since
  \<^verbatim>\<open>toString()\<close> gives well-formed text only.
\<close>

definition startsWith :: "string \<Rightarrow> string \<Rightarrow> bool" where
  \<comment> \<open>\<^verbatim>\<open>s.startsWith(p)\<close>\<close>
  "startsWith s p = (take (length p) s = p)"

definition slice :: "string \<Rightarrow> nat \<Rightarrow> string" where
  \<comment> \<open>\<^verbatim>\<open>s.slice(n)\<close> for \<open>n \<ge> 0\<close>: the string without its first \<open>n\<close> units, empty when
      \<open>n\<close> exceeds the length\<close>
  "slice s n = drop n s"

fun js_split :: "char \<Rightarrow> string \<Rightarrow> string list" where
  \<comment> \<open>\<^verbatim>\<open>s.split(sep)\<close> for a one-character separator and no limit: the fields between all
      occurrences of the separator; the empty string gives one empty field\<close>
  "js_split sep [] = [[]]"
| "js_split sep (c # cs) =
     (if c = sep then [] # js_split sep cs
      else (case js_split sep cs of
              [] \<Rightarrow> [[c]]
            | f # fs \<Rightarrow> (c # f) # fs))"

definition destructure2 :: "string list \<Rightarrow> string option \<times> string option" where
  \<comment> \<open>\<^verbatim>\<open>const [userName, password] = fields\<close>: the elements at index 0 and 1, each
      \<^verbatim>\<open>undefined\<close> (here \<open>None\<close>) when the array is too short; further elements are
      dropped\<close>
  "destructure2 fields =
     (case fields of
        [] \<Rightarrow> (None, None)
      | [u] \<Rightarrow> (Some u, None)
      | u # p # rest \<Rightarrow> (Some u, Some p))"

subsection \<open>\<^verbatim>\<open>Buffer.from(text, 'base64')\<close>\<close>

text \<open>
  The decoder of \<^verbatim>\<open>Buffer\<close> never throws. The model is the decoder of Node, whose
  \<^verbatim>\<open>Buffer\<close> the runtime provides: it reads the legal characters of both the standard and
  the URL-safe alphabet, skips every other character (white space among them), stops at the
  first \<^verbatim>\<open>=\<close>, and does not require padding. Each full group of four sextets gives three
  bytes, a final group of three sextets two bytes, of two sextets one byte, and a single
  left-over sextet none. The theorems about the handler hold for any decoder; only the
  examples, and the round trip with \<^verbatim>\<open>btoa\<close>, evaluate this one.
\<close>

definition unbase64 :: "char \<Rightarrow> nat option" where
  "unbase64 c =
     (let n = (of_char c :: nat) in
      if 65 \<le> n \<and> n \<le> 90 then Some (n - 65)
      else if 97 \<le> n \<and> n \<le> 122 then Some (n - 71)
      else if 48 \<le> n \<and> n \<le> 57 then Some (n + 4)
      else if n = 43 \<or> n = 45 then Some 62
      else if n = 47 \<or> n = 95 then Some 63
      else None)"

fun legal_sextets :: "string \<Rightarrow> nat list" where
  "legal_sextets [] = []"
| "legal_sextets (c # cs) =
     (if c = CHR ''='' then []
      else (case unbase64 c of
              None \<Rightarrow> legal_sextets cs
            | Some v \<Rightarrow> v # legal_sextets cs))"

fun sextets_to_bytes :: "nat list \<Rightarrow> nat list" where
  "sextets_to_bytes (a # b # c # d # rest) =
     (a * 4 + b div 16) # ((b mod 16) * 16 + c div 4) # ((c mod 4) * 64 + d)
       # sextets_to_bytes rest"
| "sextets_to_bytes [a, b, c] = [a * 4 + b div 16, (b mod 16) * 16 + c div 4]"
| "sextets_to_bytes [a, b] = [a * 4 + b div 16]"
| "sextets_to_bytes [a] = []"
| "sextets_to_bytes [] = []"

definition Buffer_from_base64 :: "string \<Rightarrow> string" where
  "Buffer_from_base64 text = map char_of (sextets_to_bytes (legal_sextets text))"

subsection \<open>\<^verbatim>\<open>buffer.toString()\<close>: decoding UTF-8\<close>

text \<open>
  \<^verbatim>\<open>toString()\<close> decodes the bytes as UTF-8 and never throws: every maximal ill-formed
  part becomes one U+FFFD, and the byte that ended it is read again. In the representation
  of text by its UTF-8 encoding a well-formed sequence is copied and U+FFFD is the three
  bytes \<open>EF BF BD\<close>.
\<close>

definition in_range :: "nat \<Rightarrow> nat \<Rightarrow> char \<Rightarrow> bool" where
  "in_range lo hi c = (lo \<le> of_char c \<and> (of_char c :: nat) \<le> hi)"

definition replacement :: string where
  "replacement = [CHR 0xEF, CHR 0xBF, CHR 0xBD]"

definition lower_bound :: "char \<Rightarrow> nat" where
  \<comment> \<open>the least second byte allowed after the lead byte \<open>b\<close>\<close>
  "lower_bound b = (if b = CHR 0xE0 then 0xA0 else if b = CHR 0xF0 then 0x90 else 0x80)"

definition upper_bound :: "char \<Rightarrow> nat" where
  \<comment> \<open>the greatest second byte allowed after the lead byte \<open>b\<close>\<close>
  "upper_bound b = (if b = CHR 0xED then 0x9F else if b = CHR 0xF4 then 0x8F else 0xBF)"

fun toString :: "string \<Rightarrow> string" where
  "toString [] = []"
| "toString (b # bs) =
    (if (of_char b :: nat) < 0x80 then b # toString bs
     else if in_range 0xC2 0xDF b then
       (case bs of
          [] \<Rightarrow> replacement
        | c # cs \<Rightarrow>
            if in_range 0x80 0xBF c then b # c # toString cs
            else replacement @ toString bs)
     else if in_range 0xE0 0xEF b then
       (case bs of
          [] \<Rightarrow> replacement
        | c # cs \<Rightarrow>
            if in_range (lower_bound b) (upper_bound b) c then
              (case cs of
                 [] \<Rightarrow> replacement
               | d # ds \<Rightarrow>
                   if in_range 0x80 0xBF d then b # c # d # toString ds
                   else replacement @ toString cs)
            else replacement @ toString bs)
     else if in_range 0xF0 0xF4 b then
       (case bs of
          [] \<Rightarrow> replacement
        | c # cs \<Rightarrow>
            if in_range (lower_bound b) (upper_bound b) c then
              (case cs of
                 [] \<Rightarrow> replacement
               | d # ds \<Rightarrow>
                   if in_range 0x80 0xBF d then
                     (case ds of
                        [] \<Rightarrow> replacement
                      | e # es \<Rightarrow>
                          if in_range 0x80 0xBF e then b # c # d # e # toString es
                          else replacement @ toString ds)
                   else replacement @ toString cs)
            else replacement @ toString bs)
     else replacement @ toString bs)"

subsection \<open>\<^verbatim>\<open>JSON.stringify\<close> of a string\<close>

definition hex_digit :: "nat \<Rightarrow> char" where
  "hex_digit n = (if n < 10 then char_of (48 + n) else char_of (87 + n))"

definition quote_unit :: "char \<Rightarrow> string" where
  \<comment> \<open>the escape of one code unit inside a JSON string\<close>
  "quote_unit c =
     (let n = (of_char c :: nat) in
      if n = 0x08 then [CHR 0x5C, CHR ''b'']
      else if n = 0x09 then [CHR 0x5C, CHR ''t'']
      else if n = 0x0A then [CHR 0x5C, CHR ''n'']
      else if n = 0x0C then [CHR 0x5C, CHR ''f'']
      else if n = 0x0D then [CHR 0x5C, CHR ''r'']
      else if n = 0x22 then [CHR 0x5C, CHR 0x22]
      else if n = 0x5C then [CHR 0x5C, CHR 0x5C]
      else if n < 0x20 then
        [CHR 0x5C, CHR ''u'', CHR ''0'', CHR ''0'', hex_digit (n div 16), hex_digit (n mod 16)]
      else [c])"

definition JSON_stringify_string :: "string \<Rightarrow> string" where
  "JSON_stringify_string s = [CHR 0x22] @ concat (map quote_unit s) @ [CHR 0x22]"

section \<open>Requests and responses\<close>

text \<open>
  A request is given with its URL parsed, as \<^verbatim>\<open>new URL(request.url)\<close> has it: the handler
  reads \<^verbatim>\<open>url.pathname\<close> only. Its headers are the list of name and value pairs behind
  \<^verbatim>\<open>request.headers\<close>. A response is its status, its headers and its body, \<open>None\<close> for the
  \<^verbatim>\<open>null\<close> body.
\<close>

record Request =
  req_method :: string
  url_pathname :: string
  url_search :: string
  req_headers :: "(string \<times> string) list"

record Response =
  status :: nat
  headers :: "(string \<times> string) list"
  body :: "string option"

definition lower_char :: "char \<Rightarrow> char" where
  "lower_char c =
     (let n = (of_char c :: nat) in if 65 \<le> n \<and> n \<le> 90 then char_of (n + 32) else c)"

definition same_name :: "string \<Rightarrow> string \<Rightarrow> bool" where
  \<comment> \<open>header names are compared without regard to ASCII case\<close>
  "same_name a b = (map lower_char a = map lower_char b)"

fun join_values :: "string list \<Rightarrow> string" where
  "join_values [] = []"
| "join_values [v] = v"
| "join_values (v # w # ws) = v @ '', '' @ join_values (w # ws)"

definition headers_get :: "(string \<times> string) list \<Rightarrow> string \<Rightarrow> string option" where
  \<comment> \<open>\<^verbatim>\<open>headers.get(name)\<close>: \<^verbatim>\<open>null\<close> (here \<open>None\<close>) when no header has the name,
      otherwise the values of all headers of that name, in order, joined by comma and space\<close>
  "headers_get hs name =
     (case map snd (filter (\<lambda>h. same_name (fst h) name) hs) of
        [] \<Rightarrow> None
      | v # vs \<Rightarrow> Some (join_values (v # vs)))"

section \<open>The handler\<close>

text \<open>
  The module \<^verbatim>\<open>./secrets.ts\<close> exports the two string constants \<^verbatim>\<open>USER_NAME\<close> and
  \<^verbatim>\<open>PASSWORD\<close>. They are the parameters of the model, held in a record that each
  function receives.
\<close>

record secrets =
  USER_NAME :: string
  PASSWORD :: string

definition challenge :: Response where
  \<comment> \<open>\<^verbatim>\<open>new Response(null, { status: 401, headers: { 'WWW-Authenticate': 'Basic' } })\<close>\<close>
  "challenge = \<lparr>status = 401, headers = [(''WWW-Authenticate'', ''Basic'')], body = None\<rparr>"

definition not_found :: Response where
  \<comment> \<open>\<^verbatim>\<open>new Response(null, { status: 404 })\<close>\<close>
  "not_found = \<lparr>status = 404, headers = [], body = None\<rparr>"

definition Response_json :: "string option \<Rightarrow> Response" where
  \<comment> \<open>\<^verbatim>\<open>Response.json({ userName })\<close>; a property whose value is \<^verbatim>\<open>undefined\<close> is left
      out by \<^verbatim>\<open>JSON.stringify\<close>\<close>
  "Response_json userName =
     \<lparr>status = 200,
      headers = [(''Content-Type'', ''application/json;charset=utf-8'')],
      body = Some (case userName of
                     None \<Rightarrow> ''{}''
                   | Some u \<Rightarrow> ''{\"userName\":'' @ JSON_stringify_string u @ ''}'')\<rparr>"

definition credentials :: "string \<Rightarrow> string option \<times> string option" where
  \<comment> \<open>\<^verbatim>\<open>Buffer.from(base64, 'base64').toString().split(':')\<close>, destructured into
      \<^verbatim>\<open>[userName, password]\<close>\<close>
  "credentials base64 = destructure2 (js_split CHR '':'' (toString (Buffer_from_base64 base64)))"

definition fetch :: "secrets \<Rightarrow> Request \<Rightarrow> Response" where
  "fetch env request =
     (if url_pathname request = ''/api/data'' then
        (case headers_get (req_headers request) ''Authorization'' of
           None \<Rightarrow> challenge
         | Some authorization \<Rightarrow>
             if authorization = [] \<or> \<not> startsWith authorization ''Basic '' then challenge
             else
               (let base64 = slice authorization (length ''Basic '');
                    (userName, password) = credentials base64
                in if userName \<noteq> Some (USER_NAME env) \<or> password \<noteq> Some (PASSWORD env)
                   then challenge
                   else Response_json userName))
      else not_found)"

definition decoded_fields :: "string \<Rightarrow> string list" where
  \<comment> \<open>\<^verbatim>\<open>Buffer.from(authorization.slice('Basic '.length), 'base64').toString().split(':')\<close>:
      the colon-delimited fields of the text a header value carries after its scheme\<close>
  "decoded_fields authorization =
     js_split CHR '':'' (toString (Buffer_from_base64 (slice authorization (length ''Basic ''))))"

text \<open>
  The handler reads the two imported constants and writes nothing. With the module
  bindings as the state of the server, one request takes a state to a response and a
  state, and a run of the server answers a list of requests in order.
\<close>

definition handle :: "secrets \<Rightarrow> Request \<Rightarrow> Response \<times> secrets" where
  "handle env request = (fetch env request, env)"

fun serve :: "secrets \<Rightarrow> Request list \<Rightarrow> Response list \<times> secrets" where
  "serve env [] = ([], env)"
| "serve env (request # rest) =
     (case handle env request of
        (response, env') \<Rightarrow>
          (case serve env' rest of
             (responses, env'') \<Rightarrow> (response # responses, env'')))"

section \<open>Notions of the specification\<close>

text \<open>
  The definitions of this section are not part of the server. They state notions the
  specification uses, so that the handler can be compared with them.
\<close>

definition base64_char :: "nat \<Rightarrow> char" where
  \<comment> \<open>the character of a sextet in the standard alphabet \<^verbatim>\<open>A-Z a-z 0-9 + /\<close>\<close>
  "base64_char n =
     (if n < 26 then char_of (65 + n)
      else if n < 52 then char_of (71 + n)
      else if n < 62 then char_of (n - 4)
      else if n = 62 then CHR ''+''
      else CHR ''/'')"

fun bytes_to_base64 :: "nat list \<Rightarrow> string" where
  "bytes_to_base64 (a # b # c # rest) =
     base64_char (a div 4) # base64_char ((a mod 4) * 16 + b div 16)
       # base64_char ((b mod 16) * 4 + c div 64) # base64_char (c mod 64)
       # bytes_to_base64 rest"
| "bytes_to_base64 [a, b] =
     [base64_char (a div 4), base64_char ((a mod 4) * 16 + b div 16),
      base64_char ((b mod 16) * 4), CHR ''='']"
| "bytes_to_base64 [a] =
     [base64_char (a div 4), base64_char ((a mod 4) * 16), CHR ''='', CHR ''='']"
| "bytes_to_base64 [] = []"

definition btoa :: "string \<Rightarrow> string" where
  \<comment> \<open>Standard base64 with padding of a string of bytes. The page script
      \<^verbatim>\<open>index.tsx\<close> builds its header as
      \<^verbatim>\<open>`Basic ${btoa(`${USER_NAME}:${PASSWORD}`)}`\<close>.\<close>
  "btoa s = bytes_to_base64 (map of_char s)"

definition standard_char :: "char \<Rightarrow> bool" where
  "standard_char c =
     (let n = (of_char c :: nat) in
      (65 \<le> n \<and> n \<le> 90) \<or> (97 \<le> n \<and> n \<le> 122) \<or> (48 \<le> n \<and> n \<le> 57)
      \<or> n = 43 \<or> n = 47)"

fun well_formed_base64 :: "string \<Rightarrow> bool" where
  \<comment> \<open>standard base64: groups of four characters of the standard alphabet, the last
      group padded with one or two \<^verbatim>\<open>=\<close>\<close>
  "well_formed_base64 [] = True"
| "well_formed_base64 [a, b, c, d] =
     (standard_char a \<and> standard_char b \<and>
      ((c = CHR ''='' \<and> d = CHR ''='') \<or> (standard_char c \<and> (d = CHR ''='' \<or> standard_char d))))"
| "well_formed_base64 (a # b # c # d # rest) =
     (standard_char a \<and> standard_char b \<and> standard_char c \<and> standard_char d
      \<and> well_formed_base64 rest)"
| "well_formed_base64 [a, b, c] = False"
| "well_formed_base64 [a, b] = False"
| "well_formed_base64 [a] = False"

fun well_formed_utf8 :: "string \<Rightarrow> bool" where
  \<comment> \<open>the bytes are the UTF-8 encoding of a text: what represents a well-formed string\<close>
  "well_formed_utf8 [] = True"
| "well_formed_utf8 (b # bs) =
    (if (of_char b :: nat) < 0x80 then well_formed_utf8 bs
     else if in_range 0xC2 0xDF b then
       (case bs of
          c # cs \<Rightarrow> in_range 0x80 0xBF c \<and> well_formed_utf8 cs
        | _ \<Rightarrow> False)
     else if in_range 0xE0 0xEF b then
       (case bs of
          c # d # ds \<Rightarrow>
            in_range (lower_bound b) (upper_bound b) c \<and> in_range 0x80 0xBF d
            \<and> well_formed_utf8 ds
        | _ \<Rightarrow> False)
     else if in_range 0xF0 0xF4 b then
       (case bs of
          c # d # e # es \<Rightarrow>
            in_range (lower_bound b) (upper_bound b) c \<and> in_range 0x80 0xBF d
            \<and> in_range 0x80 0xBF e \<and> well_formed_utf8 es
        | _ \<Rightarrow> False)
     else False)"

definition split_first_colon :: "string \<Rightarrow> string \<times> string" where
  \<comment> \<open>Section 4.1, step 3 of the specification: the text before the first \<^verbatim>\<open>:\<close>
      and the text after it; the second is empty when there is no \<^verbatim>\<open>:\<close>\<close>
  "split_first_colon text =
     (takeWhile (\<lambda>c. c \<noteq> CHR '':'') text, drop 1 (dropWhile (\<lambda>c. c \<noteq> CHR '':'') text))"

definition spec_authorized :: "secrets \<Rightarrow> Request \<Rightarrow> bool" where
  \<comment> \<open>the invariant of section 3 of the specification: the header is present, has the
      scheme prefix, decodes to exactly two colon-delimited fields, and these are the
      configured identity and secret, non-empty on both sides\<close>
  "spec_authorized env request =
     (case headers_get (req_headers request) ''Authorization'' of
        None \<Rightarrow> False
      | Some authorization \<Rightarrow>
          startsWith authorization ''Basic ''
          \<and> decoded_fields authorization = [USER_NAME env, PASSWORD env]
          \<and> USER_NAME env \<noteq> [] \<and> PASSWORD env \<noteq> [])"

section \<open>Example values\<close>

definition example_secrets :: secrets where
  \<comment> \<open>the credentials of the documented example: \<^verbatim>\<open>const USER_NAME = 'tom'\<close>,
      \<^verbatim>\<open>const PASSWORD = '1234'\<close>\<close>
  "example_secrets = \<lparr>USER_NAME = ''tom'', PASSWORD = ''1234''\<rparr>"

definition request_of ::
  "string \<Rightarrow> string \<Rightarrow> string \<Rightarrow> (string \<times> string) list \<Rightarrow> Request" where
  "request_of m path query hs =
     \<lparr>req_method = m, url_pathname = path, url_search = query, req_headers = hs\<rparr>"

definition GET_api_data :: "string \<Rightarrow> Request" where
  \<comment> \<open>\<^verbatim>\<open>GET /api/data\<close> with the given value of \<^verbatim>\<open>Authorization\<close>\<close>
  "GET_api_data authorization =
     request_of ''GET'' ''/api/data'' [] [(''Authorization'', authorization)]"

section \<open>Facts about the handler\<close>

lemma fetch_other_path:
  "url_pathname request \<noteq> ''/api/data'' \<Longrightarrow> fetch env request = not_found"
  by (simp add: fetch_def)

lemma fetch_no_header:
  "url_pathname request = ''/api/data'' \<Longrightarrow>
   headers_get (req_headers request) ''Authorization'' = None \<Longrightarrow>
   fetch env request = challenge"
  by (simp add: fetch_def)

lemma fetch_wrong_scheme:
  "url_pathname request = ''/api/data'' \<Longrightarrow>
   headers_get (req_headers request) ''Authorization'' = Some a \<Longrightarrow>
   \<not> startsWith a ''Basic '' \<Longrightarrow>
   fetch env request = challenge"
  by (simp add: fetch_def)

lemma fetch_basic:
  "url_pathname request = ''/api/data'' \<Longrightarrow>
   headers_get (req_headers request) ''Authorization'' = Some a \<Longrightarrow>
   startsWith a ''Basic '' \<Longrightarrow>
   fetch env request =
     (if destructure2 (decoded_fields a) = (Some (USER_NAME env), Some (PASSWORD env))
      then Response_json (Some (USER_NAME env)) else challenge)"
  by (auto simp add: fetch_def startsWith_def credentials_def decoded_fields_def
        split: prod.splits)

lemma startsWith_Basic: "startsWith (''Basic '' @ text) ''Basic ''"
  by (simp add: startsWith_def)

lemma credentials_Basic: "destructure2 (decoded_fields (''Basic '' @ text)) = credentials text"
  by (simp add: decoded_fields_def slice_def credentials_def)

lemma destructure2_both:
  "(destructure2 fs = (Some u, Some p)) = (\<exists>rest. fs = u # p # rest)"
  by (auto simp add: destructure2_def split: list.splits)

lemma fetch_authorized_iff:
  assumes "url_pathname request = ''/api/data''"
  shows "(status (fetch env request) = 200) =
     (case headers_get (req_headers request) ''Authorization'' of
        None \<Rightarrow> False
      | Some a \<Rightarrow> startsWith a ''Basic ''
          \<and> destructure2 (decoded_fields a) = (Some (USER_NAME env), Some (PASSWORD env)))"
proof (cases "headers_get (req_headers request) ''Authorization''")
  case None
  with assms show ?thesis by (simp add: fetch_no_header challenge_def)
next
  case (Some a)
  show ?thesis
  proof (cases "startsWith a ''Basic ''")
    case True
    with assms Some show ?thesis
      by (simp add: fetch_basic challenge_def Response_json_def)
  next
    case False
    with assms Some show ?thesis
      by (simp add: fetch_wrong_scheme challenge_def)
  qed
qed

lemma serve_state: "snd (serve env rs) = env"
  by (induction rs) (auto simp add: handle_def split: prod.splits)

lemma serve_responses: "fst (serve env rs) = map (fetch env) rs"
  by (induction rs) (auto simp add: handle_def split: prod.splits)

lemma get_api_data_header:
  "headers_get (req_headers (GET_api_data a)) ''Authorization'' = Some a"
  by (simp add: GET_api_data_def request_of_def headers_get_def same_name_def)

lemma get_api_data_path: "url_pathname (GET_api_data a) = ''/api/data''"
  by (simp add: GET_api_data_def request_of_def)

section \<open>Base64: decoding what \<^verbatim>\<open>btoa\<close> encodes\<close>

lemma unbase64_base64_char: "n < 64 \<Longrightarrow> unbase64 (base64_char n) = Some n"
  by (auto simp: unbase64_def base64_char_def Let_def)

lemma base64_char_not_pad: "n < 64 \<Longrightarrow> base64_char n \<noteq> CHR ''=''"
proof
  assume n: "n < 64" and eq: "base64_char n = CHR ''=''"
  have "unbase64 (base64_char n) = None"
    by (simp add: eq unbase64_def)
  with unbase64_base64_char [OF n] show False by simp
qed

lemma legal_sextets_base64_char:
  "n < 64 \<Longrightarrow> legal_sextets (base64_char n # cs) = n # legal_sextets cs"
  by (simp add: unbase64_base64_char base64_char_not_pad)

lemma legal_sextets_pad: "legal_sextets (CHR ''='' # cs) = []"
  by simp

lemma sextet_bounds:
  fixes a b c :: nat
  assumes "a < 256" "b < 256" "c < 256"
  shows "a div 4 < 64" "(a mod 4) * 16 + b div 16 < 64" "(b mod 16) * 4 + c div 64 < 64"
    "c mod 64 < 64" "(a mod 4) * 16 < 64" "(b mod 16) * 4 < 64"
  using assms by arith+

lemma regroup_first: fixes a b :: nat assumes "b < 256"
  shows "a div 4 * 4 + ((a mod 4) * 16 + b div 16) div 16 = a"
proof -
  have "b div 16 < 16" using assms by simp
  then have "((a mod 4) * 16 + b div 16) div 16 = a mod 4" by simp
  then show ?thesis by simp
qed

lemma regroup_second: fixes a b c :: nat assumes "b < 256" "c < 256"
  shows "(((a mod 4) * 16 + b div 16) mod 16) * 16 + ((b mod 16) * 4 + c div 64) div 4 = b"
proof -
  have "b div 16 < 16" using assms by simp
  then have 1: "((a mod 4) * 16 + b div 16) mod 16 = b div 16" by simp
  have "c div 64 < 4" using assms by simp
  then have 2: "((b mod 16) * 4 + c div 64) div 4 = b mod 16" by simp
  show ?thesis unfolding 1 2 by simp
qed

lemma regroup_third: fixes b c :: nat assumes "c < 256"
  shows "(((b mod 16) * 4 + c div 64) mod 4) * 64 + c mod 64 = c"
proof -
  have "c div 64 < 4" using assms by simp
  then have 1: "((b mod 16) * 4 + c div 64) mod 4 = c div 64" by simp
  show ?thesis unfolding 1 by simp
qed

lemma regroup_first_last: fixes a :: nat
  shows "a div 4 * 4 + ((a mod 4) * 16) div 16 = a"
  by simp

lemma regroup_second_last: fixes a b :: nat assumes "b < 256"
  shows "(((a mod 4) * 16 + b div 16) mod 16) * 16 + ((b mod 16) * 4) div 4 = b"
proof -
  have "b div 16 < 16" using assms by simp
  then have 1: "((a mod 4) * 16 + b div 16) mod 16 = b div 16" by simp
  show ?thesis unfolding 1 by simp
qed

lemma decode_encode_bytes:
  "\<forall>b \<in> set bs. b < 256 \<Longrightarrow> sextets_to_bytes (legal_sextets (bytes_to_base64 bs)) = bs"
proof (induction bs rule: bytes_to_base64.induct)
  case (1 a b c rest)
  then have lt: "a < 256" "b < 256" "c < 256" and rest: "\<forall>b \<in> set rest. b < 256"
    by simp_all
  have "legal_sextets (bytes_to_base64 (a # b # c # rest)) =
        a div 4 # ((a mod 4) * 16 + b div 16) # ((b mod 16) * 4 + c div 64) # (c mod 64)
          # legal_sextets (bytes_to_base64 rest)"
    by (simp only: bytes_to_base64.simps legal_sextets_base64_char sextet_bounds [OF lt])
  then have "sextets_to_bytes (legal_sextets (bytes_to_base64 (a # b # c # rest))) =
        a # b # c # sextets_to_bytes (legal_sextets (bytes_to_base64 rest))"
    by (simp only: sextets_to_bytes.simps regroup_first [OF lt(2)]
          regroup_second [OF lt(2) lt(3)] regroup_third [OF lt(3)])
  with "1.IH" [OF rest] show ?case by simp
next
  case (2 a b)
  then have lt: "a < 256" "b < 256" "(0::nat) < 256" by simp_all
  have "legal_sextets (bytes_to_base64 [a, b]) =
        [a div 4, (a mod 4) * 16 + b div 16, (b mod 16) * 4]"
    by (simp only: bytes_to_base64.simps legal_sextets_base64_char sextet_bounds [OF lt]
          legal_sextets_pad)
  then show ?case
    by (simp only: sextets_to_bytes.simps regroup_first [OF lt(2)] regroup_second_last [OF lt(2)])
next
  case (3 a)
  then have lt: "a < 256" "(0::nat) < 256" "(0::nat) < 256" by simp_all
  have "legal_sextets (bytes_to_base64 [a]) = [a div 4, (a mod 4) * 16]"
    by (simp only: bytes_to_base64.simps legal_sextets_base64_char sextet_bounds [OF lt]
          legal_sextets_pad)
  then show ?case
    by (simp only: sextets_to_bytes.simps regroup_first_last)
next
  case 4
  show ?case by simp
qed

lemma Buffer_from_base64_btoa: "Buffer_from_base64 (btoa s) = s"
proof -
  have "\<forall>b \<in> set (map of_char s :: nat list). b < 256" by simp
  then have "sextets_to_bytes (legal_sextets (bytes_to_base64 (map of_char s))) = map of_char s"
    by (rule decode_encode_bytes)
  then show ?thesis
    by (simp add: Buffer_from_base64_def btoa_def map_idI)
qed

section \<open>UTF-8: well-formed text is decoded to itself\<close>

lemma well_formed_utf8_cases:
  assumes "well_formed_utf8 (b # bs)"
  obtains
    (ascii) "(of_char b :: nat) < 0x80" "well_formed_utf8 bs"
  | (two) c cs where "\<not> (of_char b :: nat) < 0x80" "in_range 0xC2 0xDF b" "bs = c # cs"
      "in_range 0x80 0xBF c" "well_formed_utf8 cs"
  | (three) c d ds where "\<not> (of_char b :: nat) < 0x80" "\<not> in_range 0xC2 0xDF b"
      "in_range 0xE0 0xEF b" "bs = c # d # ds"
      "in_range (lower_bound b) (upper_bound b) c" "in_range 0x80 0xBF d" "well_formed_utf8 ds"
  | (four) c d e es where "\<not> (of_char b :: nat) < 0x80" "\<not> in_range 0xC2 0xDF b"
      "\<not> in_range 0xE0 0xEF b" "in_range 0xF0 0xF4 b" "bs = c # d # e # es"
      "in_range (lower_bound b) (upper_bound b) c" "in_range 0x80 0xBF d"
      "in_range 0x80 0xBF e" "well_formed_utf8 es"
proof (cases "(of_char b :: nat) < 0x80")
  case True
  with assms show ?thesis by (simp add: ascii)
next
  case n1: False
  show ?thesis
  proof (cases "in_range 0xC2 0xDF b")
    case True
    with n1 assms show ?thesis by (cases bs) (simp_all add: two)
  next
    case n2: False
    show ?thesis
    proof (cases "in_range 0xE0 0xEF b")
      case True
      with n1 n2 assms obtain c d ds where "bs = c # d # ds"
        by (simp split: list.splits)
      with True n1 n2 assms show ?thesis by (simp add: three)
    next
      case n3: False
      with n1 n2 assms have f: "in_range 0xF0 0xF4 b"
        by (simp split: if_splits)
      with n1 n2 n3 assms obtain c d e es where "bs = c # d # e # es"
        by (simp split: list.splits)
      with f n1 n2 n3 assms show ?thesis by (simp add: four)
    qed
  qed
qed


lemma toString_well_formed: "well_formed_utf8 s \<Longrightarrow> toString s = s"
proof (induction s rule: length_induct)
  case (1 s)
  show ?case
  proof (cases s)
    case Nil
    then show ?thesis by simp
  next
    case (Cons b bs)
    from "1.prems" have wf: "well_formed_utf8 (b # bs)" by (simp only: Cons)
    from wf show ?thesis
    proof (cases rule: well_formed_utf8_cases)
      case ascii
      with "1.IH" Cons have "toString bs = bs" by simp
      with ascii show ?thesis by (simp add: Cons)
    next
      case (two c cs)
      with "1.IH" Cons have "toString cs = cs" by simp
      with two show ?thesis by (simp add: Cons)
    next
      case (three c d ds)
      with "1.IH" Cons have "toString ds = ds" by simp
      with three show ?thesis by (simp add: Cons)
    next
      case (four c d e es)
      with "1.IH" Cons have "toString es = es" by simp
      with four show ?thesis by (simp add: Cons)
    qed
  qed
qed

lemma well_formed_utf8_append:
  "well_formed_utf8 s \<Longrightarrow> well_formed_utf8 t \<Longrightarrow> well_formed_utf8 (s @ t)"
proof (induction s rule: length_induct)
  case (1 s)
  show ?case
  proof (cases s)
    case Nil
    with "1.prems" show ?thesis by simp
  next
    case (Cons b bs)
    from "1.prems" have wf: "well_formed_utf8 (b # bs)" by (simp only: Cons)
    from wf show ?thesis
    proof (cases rule: well_formed_utf8_cases)
      case ascii
      with "1.IH" "1.prems"(2) Cons have "well_formed_utf8 (bs @ t)" by simp
      with ascii show ?thesis by (simp add: Cons)
    next
      case (two c cs)
      with "1.IH" "1.prems"(2) Cons have "well_formed_utf8 (cs @ t)" by simp
      with two show ?thesis by (simp add: Cons)
    next
      case (three c d ds)
      with "1.IH" "1.prems"(2) Cons have "well_formed_utf8 (ds @ t)" by simp
      with three show ?thesis by (simp add: Cons)
    next
      case (four c d e es)
      with "1.IH" "1.prems"(2) Cons have "well_formed_utf8 (es @ t)" by simp
      with four show ?thesis by (simp add: Cons)
    qed
  qed
qed

lemma js_split_no_sep: "sep \<notin> set s \<Longrightarrow> js_split sep s = [s]"
  by (induction s) auto

lemma js_split_first: "sep \<notin> set s \<Longrightarrow> js_split sep (s @ sep # t) = s # js_split sep t"
  by (induction s) auto

text \<open>\<^verbatim>\<open>split\<close> gives at least one field, so \<^verbatim>\<open>userName\<close> is never \<^verbatim>\<open>undefined\<close>.\<close>

lemma js_split_not_Nil: "js_split sep s \<noteq> []"
  by (induction s) (auto split: list.splits)

section \<open>Splitting the decoded text\<close>

lemma takeWhile_no_sep: "sep \<notin> set s \<Longrightarrow> takeWhile (\<lambda>c. c \<noteq> sep) s = s"
  by (induction s) auto

lemma takeWhile_first_sep:
  "sep \<notin> set s \<Longrightarrow> takeWhile (\<lambda>c. c \<noteq> sep) (s @ sep # t) = s"
  by (induction s) auto

lemma dropWhile_first_sep:
  "sep \<notin> set s \<Longrightarrow> dropWhile (\<lambda>c. c \<noteq> sep) (s @ sep # t) = sep # t"
  by (induction s) auto

text \<open>
  On a text with at most one colon the destructured split of the handler and the split
  at the first colon give the same identity, and the same secret when there is a colon;
  without a colon the handler's \<^verbatim>\<open>password\<close> is \<^verbatim>\<open>undefined\<close>.
\<close>

lemma destructured_split_at_most_one_colon:
  assumes "length (filter (\<lambda>c. c = CHR '':'') text) \<le> 1"
  shows "destructure2 (js_split CHR '':'' text) =
     (Some (fst (split_first_colon text)),
      if CHR '':'' \<in> set text then Some (snd (split_first_colon text)) else None)"
proof (cases "CHR '':'' \<in> set text")
  case False
  then show ?thesis
    by (simp add: js_split_no_sep destructure2_def split_first_colon_def takeWhile_no_sep)
next
  case True
  then obtain s t where decomp: "text = s @ CHR '':'' # t" and s: "CHR '':'' \<notin> set s"
    by (auto dest: split_list_first)
  with assms have t: "CHR '':'' \<notin> set t"
    by (auto simp add: filter_empty_conv)
  from s t show ?thesis
    by (simp add: decomp js_split_first js_split_no_sep destructure2_def split_first_colon_def
          takeWhile_first_sep dropWhile_first_sep)
qed

section \<open>The documented scenarios\<close>

text \<open>
  The five end-to-end scenarios of the specification, for the credentials \<^verbatim>\<open>tom\<close> and
  \<^verbatim>\<open>1234\<close>: no header; the valid header; the identity with an empty secret; a wrong
  identity; another path.
\<close>

lemma scenario_no_header:
  "fetch example_secrets (request_of ''GET'' ''/api/data'' [] [])
   = \<lparr>status = 401, headers = [(''WWW-Authenticate'', ''Basic'')], body = None\<rparr>"
  by code_simp

lemma scenario_valid_header:
  "status (fetch example_secrets (GET_api_data ''Basic dG9tOjEyMzQ='')) = 200
   \<and> body (fetch example_secrets (GET_api_data ''Basic dG9tOjEyMzQ=''))
       = Some ''{\"userName\":\"tom\"}''"
  by code_simp

lemma scenario_empty_secret:
  "toString (Buffer_from_base64 ''dG9tOg=='') = ''tom:''
   \<and> status (fetch example_secrets (GET_api_data ''Basic dG9tOg=='')) = 401"
  by code_simp

lemma scenario_wrong_identity:
  "toString (Buffer_from_base64 ''d3Jvbmc6MTIzNA=='') = ''wrong:1234''
   \<and> status (fetch example_secrets (GET_api_data ''Basic d3Jvbmc6MTIzNA=='')) = 401"
  by code_simp

lemma scenario_other_path:
  "fetch example_secrets
     (request_of ''GET'' ''/other/path'' [] [(''Authorization'', ''Basic dG9tOjEyMzQ='')])
   = \<lparr>status = 404, headers = [], body = None\<rparr>"
  by code_simp

section \<open>The claims\<close>

text \<open>
  Claim C1 (the invariant of Authorized), as the handler has it. For a request to
  \<^verbatim>\<open>/api/data\<close> whose \<^verbatim>\<open>Basic \<close> header, if it has one, carries a text of at most one
  colon (at most two fields), the response has status 200 if
  and only if the \<^verbatim>\<open>Authorization\<close> header is present, begins with \<^verbatim>\<open>Basic \<close>, and the
  rest decodes to exactly two colon-delimited fields that are equal to
  \<^verbatim>\<open>USER_NAME\<close> and \<^verbatim>\<open>PASSWORD\<close>. The handler has no test for emptiness: the two fields
  are non-empty exactly when the configured constants are. What the handler does with a
  decoded text of more than one colon is the subject of claim C2.
\<close>

theorem authorized_iff_two_matching_fields:
  assumes "url_pathname request = ''/api/data''"
    and "case headers_get (req_headers request) ''Authorization'' of
           None \<Rightarrow> True
         | Some a \<Rightarrow> startsWith a ''Basic '' \<longrightarrow> length (decoded_fields a) \<le> 2"
  shows "(status (fetch env request) = 200) =
     (case headers_get (req_headers request) ''Authorization'' of
        None \<Rightarrow> False
      | Some a \<Rightarrow> startsWith a ''Basic ''
          \<and> decoded_fields a = [USER_NAME env, PASSWORD env])"
proof (cases "headers_get (req_headers request) ''Authorization''")
  case None
  with assms(1) show ?thesis by (simp add: fetch_authorized_iff)
next
  case (Some a)
  show ?thesis
  proof (cases "startsWith a ''Basic ''")
    case False
    with assms(1) Some show ?thesis by (simp add: fetch_authorized_iff)
  next
    case True
    with assms(2) Some have "length (decoded_fields a) \<le> 2" by simp
    then have "(\<exists>rest. decoded_fields a = USER_NAME env # PASSWORD env # rest) =
        (decoded_fields a = [USER_NAME env, PASSWORD env])"
      by auto
    with assms(1) Some show ?thesis
      by (simp add: fetch_authorized_iff destructure2_both)
  qed
qed

text \<open>
  Witness for C1: the documented credentials \<^verbatim>\<open>tom\<close> and \<^verbatim>\<open>1234\<close> with the header
  \<^verbatim>\<open>Basic dG9tOjEyMzQ=\<close>, which decodes to the two fields \<^verbatim>\<open>tom\<close> and \<^verbatim>\<open>1234\<close>.
\<close>

theorem authorized_iff_two_matching_fields_witness:
  "url_pathname (GET_api_data ''Basic dG9tOjEyMzQ='') = ''/api/data''
   \<and> startsWith ''Basic dG9tOjEyMzQ='' ''Basic ''
   \<and> decoded_fields ''Basic dG9tOjEyMzQ='' = [''tom'', ''1234'']
   \<and> status (fetch example_secrets (GET_api_data ''Basic dG9tOjEyMzQ='')) = 200"
proof -
  have f: "decoded_fields ''Basic dG9tOjEyMzQ='' = [''tom'', ''1234'']"
    by code_simp
  have h: "case headers_get (req_headers (GET_api_data ''Basic dG9tOjEyMzQ='')) ''Authorization'' of
             None \<Rightarrow> True
           | Some a \<Rightarrow> startsWith a ''Basic '' \<longrightarrow> length (decoded_fields a) \<le> 2"
    by (simp add: get_api_data_header f)
  have s: "startsWith ''Basic dG9tOjEyMzQ='' ''Basic ''"
    by (simp add: startsWith_def)
  from authorized_iff_two_matching_fields [OF get_api_data_path h, of example_secrets]
  show ?thesis
    by (simp add: get_api_data_header get_api_data_path f s example_secrets_def)
qed

text \<open>
  Counterexample to C1 as stated: with an empty configured identity, the header
  \<^verbatim>\<open>Basic Ong=\<close> (the text \<^verbatim>\<open>:x\<close>) is answered with status 200, although the identity is
  empty and the invariant of the specification does not hold. Nor does it hold for the
  documented credentials and the header \<^verbatim>\<open>Basic dG9tOjEyMzQ6eA==\<close>, whose text
  \<^verbatim>\<open>tom:1234:x\<close> has three fields and is answered with status 200.
\<close>

theorem authorized_with_empty_identity_counterexample:
  "status (fetch \<lparr>USER_NAME = [], PASSWORD = ''x''\<rparr> (GET_api_data ''Basic Ong='')) = 200
   \<and> \<not> spec_authorized \<lparr>USER_NAME = [], PASSWORD = ''x''\<rparr> (GET_api_data ''Basic Ong='')
   \<and> status (fetch example_secrets (GET_api_data ''Basic dG9tOjEyMzQ6eA=='')) = 200
   \<and> \<not> spec_authorized example_secrets (GET_api_data ''Basic dG9tOjEyMzQ6eA=='')"
  by code_simp

text \<open>
  Claim C2 (the decoded text is split at its first colon, so that a secret keeps its
  further colons). The handler splits at every colon and keeps the first two fields: for the
  header text \<^verbatim>\<open>dG9tOjEyOjM0\<close>, which decodes to \<^verbatim>\<open>tom:12:34\<close>, its \<^verbatim>\<open>password\<close> is
  \<^verbatim>\<open>12\<close>, where the split at the first colon gives the secret \<^verbatim>\<open>12:34\<close>.
\<close>

theorem split_drops_text_after_second_colon:
  "credentials ''dG9tOjEyOjM0'' = (Some ''tom'', Some ''12'')
   \<and> split_first_colon (toString (Buffer_from_base64 ''dG9tOjEyOjM0'')) = (''tom'', ''12:34'')"
  by code_simp

text \<open>
  What the split at every colon means for a request: fields after the second are
  ignored, so \<^verbatim>\<open>tom:1234:x\<close> is accepted for the credentials \<^verbatim>\<open>tom\<close> and \<^verbatim>\<open>1234\<close>; and a
  configured secret with a colon is never matched, so \<^verbatim>\<open>tom:12:34\<close> is rejected when the
  configured secret is \<^verbatim>\<open>12:34\<close>.
\<close>

lemma fields_after_the_second_are_ignored:
  "toString (Buffer_from_base64 ''dG9tOjEyMzQ6eA=='') = ''tom:1234:x''
   \<and> status (fetch example_secrets (GET_api_data ''Basic dG9tOjEyMzQ6eA=='')) = 200"
  by code_simp

lemma secret_with_colon_is_never_matched:
  "btoa ''tom:12:34'' = ''dG9tOjEyOjM0''
   \<and> status (fetch \<lparr>USER_NAME = ''tom'', PASSWORD = ''12:34''\<rparr>
         (GET_api_data ''Basic dG9tOjEyOjM0'')) = 401"
  by code_simp

text \<open>
  Claim C3 (the valid credentials are accepted), as the handler has it. Let the
  configured identity and secret be well-formed text without a colon. A request to
  \<^verbatim>\<open>/api/data\<close> whose header is \<^verbatim>\<open>Basic \<close> followed by the base64 encoding of identity,
  colon, secret is answered with status 200, the JSON body \<^verbatim>\<open>{"userName":...}\<close> holding
  the identity as a JSON string, and no \<^verbatim>\<open>WWW-Authenticate\<close> header. An identity with
  a colon cannot be sent in this header format; what happens to a secret with a colon is
  the subject of claim C2.
\<close>

theorem valid_credentials_are_authorized:
  assumes "url_pathname request = ''/api/data''"
    and "ident = USER_NAME env" and "secret = PASSWORD env"
    and "headers_get (req_headers request) ''Authorization''
         = Some (''Basic '' @ btoa (ident @ '':'' @ secret))"
    and "well_formed_utf8 ident" and "well_formed_utf8 secret"
    and "CHR '':'' \<notin> set ident" and "CHR '':'' \<notin> set secret"
  shows "status (fetch env request) = 200
     \<and> body (fetch env request) = Some (''{\"userName\":'' @ JSON_stringify_string ident @ ''}'')
     \<and> headers_get (headers (fetch env request)) ''WWW-Authenticate'' = None"
proof -
  have "well_formed_utf8 (ident @ CHR '':'' # secret)"
    using assms(5,6) by (simp add: well_formed_utf8_append)
  then have "toString (ident @ CHR '':'' # secret) = ident @ CHR '':'' # secret"
    by (rule toString_well_formed)
  then have "toString (Buffer_from_base64 (btoa (ident @ '':'' @ secret)))
      = ident @ CHR '':'' # secret"
    by (simp add: Buffer_from_base64_btoa)
  then have "credentials (btoa (ident @ '':'' @ secret)) = (Some ident, Some secret)"
    using assms(7,8)
    by (simp add: credentials_def js_split_first js_split_no_sep destructure2_def)
  then have "destructure2 (decoded_fields (''Basic '' @ btoa (ident @ '':'' @ secret)))
      = (Some (USER_NAME env), Some (PASSWORD env))"
    using assms(2,3) by (simp only: credentials_Basic)
  with fetch_basic [OF assms(1) assms(4) startsWith_Basic, of env]
  have "fetch env request = Response_json (Some (USER_NAME env))"
    by simp
  with assms(2) show ?thesis
    by (simp add: Response_json_def headers_get_def same_name_def)
qed

text \<open>
  Witness for C3: the documented credentials; the header is \<^verbatim>\<open>Basic dG9tOjEyMzQ=\<close> and
  the body is \<^verbatim>\<open>{"userName":"tom"}\<close>.
\<close>

theorem valid_credentials_are_authorized_witness:
  "''Basic '' @ btoa (''tom'' @ '':'' @ ''1234'') = ''Basic dG9tOjEyMzQ=''
   \<and> well_formed_utf8 ''tom'' \<and> well_formed_utf8 ''1234''
   \<and> CHR '':'' \<notin> set ''tom'' \<and> CHR '':'' \<notin> set ''1234''
   \<and> status (fetch example_secrets (GET_api_data ''Basic dG9tOjEyMzQ='')) = 200
   \<and> body (fetch example_secrets (GET_api_data ''Basic dG9tOjEyMzQ=''))
       = Some ''{\"userName\":\"tom\"}''"
proof -
  have enc: "''Basic '' @ btoa (''tom'' @ '':'' @ ''1234'') = ''Basic dG9tOjEyMzQ=''"
    by code_simp
  have hdr: "headers_get (req_headers (GET_api_data ''Basic dG9tOjEyMzQ='')) ''Authorization''
      = Some (''Basic '' @ btoa (''tom'' @ '':'' @ ''1234''))"
    by (simp only: get_api_data_header enc)
  have u: "''tom'' = USER_NAME example_secrets" and p: "''1234'' = PASSWORD example_secrets"
    by (simp_all add: example_secrets_def)
  have wu: "well_formed_utf8 ''tom''" and wp: "well_formed_utf8 ''1234''"
    by code_simp+
  have cu: "CHR '':'' \<notin> set ''tom''" and cp: "CHR '':'' \<notin> set ''1234''"
    by simp_all
  have q: "JSON_stringify_string ''tom'' = ''\"tom\"''"
    by code_simp
  have enc': "btoa ''tom:1234'' = ''dG9tOjEyMzQ=''"
    by code_simp
  from valid_credentials_are_authorized [OF get_api_data_path u p hdr wu wp cu cp]
  show ?thesis
    by (simp add: enc' wu wp q)
qed

text \<open>
  Counterexample to C3 as stated: with the configured identity \<^verbatim>\<open>a:b\<close> and the secret
  \<^verbatim>\<open>c\<close>, the header built from exactly these, \<^verbatim>\<open>Basic YTpiOmM=\<close>, is answered with 401.
  So is, with the configured identity \<^verbatim>\<open>tom\<close> and the secret \<^verbatim>\<open>12:34\<close>, the header
  \<^verbatim>\<open>Basic dG9tOjEyOjM0\<close>.
\<close>

theorem identity_with_colon_counterexample:
  "''Basic '' @ btoa (''a:b'' @ '':'' @ ''c'') = ''Basic YTpiOmM=''
   \<and> status (fetch \<lparr>USER_NAME = ''a:b'', PASSWORD = ''c''\<rparr> (GET_api_data ''Basic YTpiOmM='')) = 401
   \<and> ''Basic '' @ btoa (''tom'' @ '':'' @ ''12:34'') = ''Basic dG9tOjEyOjM0''
   \<and> status (fetch \<lparr>USER_NAME = ''tom'', PASSWORD = ''12:34''\<rparr>
         (GET_api_data ''Basic dG9tOjEyOjM0'')) = 401"
  by code_simp

text \<open>
  Claim C4 (an empty identity or secret is rejected), as the handler has it. Let the
  configured identity and secret both be non-empty. A request to \<^verbatim>\<open>/api/data\<close> with a
  \<^verbatim>\<open>Basic \<close> header whose decoded identity is empty, or whose decoded secret is empty or
  missing, is answered with the 401 challenge, whatever the other field is. The handler
  has no branch for emptiness; the rejection is the mismatch with the configured values.
\<close>

theorem empty_candidate_is_rejected:
  assumes "USER_NAME env \<noteq> []" and "PASSWORD env \<noteq> []"
    and "url_pathname request = ''/api/data''"
    and "headers_get (req_headers request) ''Authorization'' = Some (''Basic '' @ text)"
    and "fst (credentials text) = Some [] \<or> snd (credentials text) = Some []
         \<or> snd (credentials text) = None"
  shows "status (fetch env request) = 401 \<and> fetch env request = challenge"
proof -
  from assms(1,2,5)
  have "credentials text \<noteq> (Some (USER_NAME env), Some (PASSWORD env))"
    by auto
  then have "destructure2 (decoded_fields (''Basic '' @ text))
      \<noteq> (Some (USER_NAME env), Some (PASSWORD env))"
    by (simp only: credentials_Basic not_False_eq_True)
  with fetch_basic [OF assms(3) assms(4) startsWith_Basic, of env]
  show ?thesis
    by (simp add: challenge_def)
qed

text \<open>
  Witness for C4: the identity \<^verbatim>\<open>tom\<close> with an empty secret, \<^verbatim>\<open>Basic dG9tOg==\<close>.
\<close>

theorem empty_candidate_is_rejected_witness:
  "USER_NAME example_secrets \<noteq> [] \<and> PASSWORD example_secrets \<noteq> []
   \<and> credentials ''dG9tOg=='' = (Some ''tom'', Some [])
   \<and> status (fetch example_secrets (GET_api_data (''Basic '' @ ''dG9tOg==''))) = 401"
proof -
  have u: "USER_NAME example_secrets \<noteq> []" and p: "PASSWORD example_secrets \<noteq> []"
    by (simp_all add: example_secrets_def)
  have c: "credentials ''dG9tOg=='' = (Some ''tom'', Some [])"
    by code_simp
  then have e: "fst (credentials ''dG9tOg=='') = Some [] \<or> snd (credentials ''dG9tOg=='') = Some []
      \<or> snd (credentials ''dG9tOg=='') = None"
    by simp
  from empty_candidate_is_rejected [OF u p get_api_data_path get_api_data_header e] u p c
  show ?thesis by (simp add: challenge_def)
qed

text \<open>
  Counterexample to C4 as stated: with an empty configured identity, the header
  \<^verbatim>\<open>Basic Ong=\<close> decodes to an empty identity and the secret \<^verbatim>\<open>x\<close>, and is answered
  with status 200.
\<close>

theorem empty_identity_accepted_counterexample:
  "credentials ''Ong='' = (Some [], Some ''x'')
   \<and> status (fetch \<lparr>USER_NAME = [], PASSWORD = ''x''\<rparr> (GET_api_data (''Basic '' @ ''Ong=''))) = 200"
  by code_simp

text \<open>
  Claim C5 (no header, or another scheme). A request to \<^verbatim>\<open>/api/data\<close> whose
  \<^verbatim>\<open>Authorization\<close> header is absent, or does not begin with \<^verbatim>\<open>Basic \<close>, is answered
  with status 401, no body, and the single header \<^verbatim>\<open>WWW-Authenticate: Basic\<close>, which
  carries no realm.
\<close>

theorem missing_or_foreign_scheme_is_challenged:
  assumes "url_pathname request = ''/api/data''"
    and "headers_get (req_headers request) ''Authorization'' = None
         \<or> (\<exists>a. headers_get (req_headers request) ''Authorization'' = Some a
                  \<and> \<not> startsWith a ''Basic '')"
  shows "status (fetch env request) = 401 \<and> body (fetch env request) = None
         \<and> headers (fetch env request) = [(''WWW-Authenticate'', ''Basic'')]"
  using assms
  by (auto simp add: fetch_no_header fetch_wrong_scheme challenge_def)

text \<open>
  Witness for C5: a request without any header, and one with \<^verbatim>\<open>Bearer xyz\<close>.
\<close>

theorem missing_or_foreign_scheme_is_challenged_witness:
  "headers_get (req_headers (request_of ''GET'' ''/api/data'' [] [])) ''Authorization'' = None
   \<and> status (fetch example_secrets (request_of ''GET'' ''/api/data'' [] [])) = 401
   \<and> headers (fetch example_secrets (request_of ''GET'' ''/api/data'' [] []))
       = [(''WWW-Authenticate'', ''Basic'')]
   \<and> \<not> startsWith ''Bearer xyz'' ''Basic ''
   \<and> status (fetch example_secrets (GET_api_data ''Bearer xyz'')) = 401
   \<and> body (fetch example_secrets (GET_api_data ''Bearer xyz'')) = None"
proof -
  have absent:
    "headers_get (req_headers (request_of ''GET'' ''/api/data'' [] [])) ''Authorization'' = None"
    by (simp add: request_of_def headers_get_def)
  have path: "url_pathname (request_of ''GET'' ''/api/data'' [] []) = ''/api/data''"
    by (simp add: request_of_def)
  have bearer: "\<not> startsWith ''Bearer xyz'' ''Basic ''"
    by (simp add: startsWith_def)
  from missing_or_foreign_scheme_is_challenged [OF path, of example_secrets]
    missing_or_foreign_scheme_is_challenged
      [OF get_api_data_path, of "''Bearer xyz''" example_secrets]
  show ?thesis
    by (simp add: absent bearer get_api_data_header)
qed

text \<open>
  Claim C6 (text that is not well-formed base64), as the handler has it. The decoder of
  \<^verbatim>\<open>Buffer\<close> is lenient: it skips characters outside the alphabet, stops at the first
  \<^verbatim>\<open>=\<close> and needs no padding. So a request to \<^verbatim>\<open>/api/data\<close> with the header \<^verbatim>\<open>Basic \<close>
  followed by text that is not well-formed base64 never fails; it is answered with 200 or
  401, and with the 401 challenge unless the leniently decoded text gives the configured
  identity and secret.
\<close>

theorem malformed_base64_is_decoded_leniently:
  assumes "url_pathname request = ''/api/data''"
    and "headers_get (req_headers request) ''Authorization'' = Some (''Basic '' @ text)"
    and "\<not> well_formed_base64 text"
  shows "status (fetch env request) \<in> {200, 401}
     \<and> (credentials text \<noteq> (Some (USER_NAME env), Some (PASSWORD env))
          \<longrightarrow> fetch env request = challenge)"
  using fetch_basic [OF assms(1) assms(2) startsWith_Basic, of env]
  by (simp only: credentials_Basic)
     (simp add: challenge_def Response_json_def)

text \<open>
  Witness for C6: the text \<^verbatim>\<open>!!!\<close>, which has no legal character.
\<close>

theorem malformed_base64_is_decoded_leniently_witness:
  "\<not> well_formed_base64 ''!!!''
   \<and> credentials ''!!!'' = (Some [], None)
   \<and> fetch example_secrets (GET_api_data (''Basic '' @ ''!!!'')) = challenge"
proof -
  have m: "\<not> well_formed_base64 ''!!!''"
    by simp
  have c: "credentials ''!!!'' = (Some [], None)"
    by code_simp
  from malformed_base64_is_decoded_leniently
    [OF get_api_data_path get_api_data_header m, of example_secrets] m c
  show ?thesis by simp
qed

text \<open>
  Counterexample to C6 as stated: \<^verbatim>\<open>dG9tOjEyMzQ\<close> lacks its padding, so it is not
  well-formed base64, and the header \<^verbatim>\<open>Basic dG9tOjEyMzQ\<close> is answered with status 200.
  So is the header whose text has a space in its middle.
\<close>

theorem unpadded_base64_accepted_counterexample:
  "\<not> well_formed_base64 ''dG9tOjEyMzQ''
   \<and> status (fetch example_secrets (GET_api_data ''Basic dG9tOjEyMzQ'')) = 200
   \<and> \<not> well_formed_base64 ''dG9t OjEyMzQ=''
   \<and> status (fetch example_secrets (GET_api_data ''Basic dG9t OjEyMzQ='')) = 200"
  by code_simp

text \<open>
  Claim C7 (any other path). A request whose pathname is not \<^verbatim>\<open>/api/data\<close> is answered by
  the handler with status 404, no body and no header at all, so without a
  \<^verbatim>\<open>WWW-Authenticate\<close> header, whatever its \<^verbatim>\<open>Authorization\<close> header is. (The static route
  \<^verbatim>\<open>/\<close> of \<^verbatim>\<open>Bun.serve\<close> is served before the handler is called.)
\<close>

theorem other_path_not_found:
  assumes "url_pathname request \<noteq> ''/api/data''"
  shows "status (fetch env request) = 404 \<and> body (fetch env request) = None
         \<and> headers (fetch env request) = []
         \<and> headers_get (headers (fetch env request)) ''WWW-Authenticate'' = None"
  using assms by (simp add: fetch_other_path not_found_def headers_get_def)

text \<open>
  Witness for C7: \<^verbatim>\<open>GET /other/path\<close> carrying the valid credentials.
\<close>

theorem other_path_not_found_witness:
  "url_pathname (request_of ''GET'' ''/other/path'' []
       [(''Authorization'', ''Basic dG9tOjEyMzQ='')]) \<noteq> ''/api/data''
   \<and> status (fetch example_secrets (request_of ''GET'' ''/other/path'' []
       [(''Authorization'', ''Basic dG9tOjEyMzQ='')])) = 404
   \<and> headers (fetch example_secrets (request_of ''GET'' ''/other/path'' []
       [(''Authorization'', ''Basic dG9tOjEyMzQ='')])) = []"
proof -
  have path: "url_pathname (request_of ''GET'' ''/other/path'' []
       [(''Authorization'', ''Basic dG9tOjEyMzQ='')]) \<noteq> ''/api/data''"
    by (simp add: request_of_def)
  from other_path_not_found [OF path, of example_secrets] path show ?thesis
    by simp
qed

text \<open>
  Claim C8 (no state). The handler writes nothing: a run of the server over any list of
  requests leaves the module bindings as they were, and a request that occurs twice in
  the run, whatever is served before, between and after, gets the same response both
  times, the one the handler computes for it alone.
\<close>

theorem serve_is_stateless:
  "snd (serve env (before @ [request] @ between @ [request] @ after)) = env
   \<and> fst (serve env (before @ [request] @ between @ [request] @ after)) ! length before
       = fetch env request
   \<and> fst (serve env (before @ [request] @ between @ [request] @ after))
         ! (length before + 1 + length between)
       = fetch env request"
  by (simp add: serve_state serve_responses nth_append)

text \<open>
  Witness for C8: the valid request, a request with another scheme, the valid request.
\<close>

theorem serve_is_stateless_witness:
  "snd (serve example_secrets
      [GET_api_data ''Basic dG9tOjEyMzQ='', GET_api_data ''Bearer xyz'',
       GET_api_data ''Basic dG9tOjEyMzQ='']) = example_secrets
   \<and> fst (serve example_secrets
      [GET_api_data ''Basic dG9tOjEyMzQ='', GET_api_data ''Bearer xyz'',
       GET_api_data ''Basic dG9tOjEyMzQ='']) ! 0
     = fst (serve example_secrets
      [GET_api_data ''Basic dG9tOjEyMzQ='', GET_api_data ''Bearer xyz'',
       GET_api_data ''Basic dG9tOjEyMzQ='']) ! 2"
  using serve_is_stateless [of example_secrets "[]" "GET_api_data ''Basic dG9tOjEyMzQ=''"
      "[GET_api_data ''Bearer xyz'']" "[]"]
  by (simp add: handle_def)

text \<open>
  Claim C9 (what the response depends on). Two requests with the same pathname and the
  same value of \<^verbatim>\<open>headers.get('Authorization')\<close> get the same response, whatever their
  method, query string and other headers are.
\<close>

theorem fetch_reads_pathname_and_authorization_only:
  assumes "url_pathname r1 = url_pathname r2"
    and "headers_get (req_headers r1) ''Authorization''
         = headers_get (req_headers r2) ''Authorization''"
  shows "fetch env r1 = fetch env r2"
  using assms by (simp add: fetch_def)

text \<open>
  Witness for C9: a \<^verbatim>\<open>GET\<close> with a query string and an \<^verbatim>\<open>Accept\<close> header, and a
  \<^verbatim>\<open>POST\<close> with a cookie and the header name in capitals.
\<close>

theorem fetch_reads_pathname_and_authorization_only_witness:
  "req_method (request_of ''GET'' ''/api/data'' ''?a=1''
       [(''Accept'', ''*/*''), (''authorization'', ''Basic dG9tOjEyMzQ='')])
     \<noteq> req_method (request_of ''POST'' ''/api/data'' []
       [(''AUTHORIZATION'', ''Basic dG9tOjEyMzQ=''), (''Cookie'', ''a=b'')])
   \<and> fetch example_secrets (request_of ''GET'' ''/api/data'' ''?a=1''
       [(''Accept'', ''*/*''), (''authorization'', ''Basic dG9tOjEyMzQ='')])
     = fetch example_secrets (request_of ''POST'' ''/api/data'' []
       [(''AUTHORIZATION'', ''Basic dG9tOjEyMzQ=''), (''Cookie'', ''a=b'')])"
proof -
  have path: "url_pathname (request_of ''GET'' ''/api/data'' ''?a=1''
       [(''Accept'', ''*/*''), (''authorization'', ''Basic dG9tOjEyMzQ='')])
     = url_pathname (request_of ''POST'' ''/api/data'' []
       [(''AUTHORIZATION'', ''Basic dG9tOjEyMzQ=''), (''Cookie'', ''a=b'')])"
    by (simp add: request_of_def)
  have auth: "headers_get (req_headers (request_of ''GET'' ''/api/data'' ''?a=1''
       [(''Accept'', ''*/*''), (''authorization'', ''Basic dG9tOjEyMzQ='')])) ''Authorization''
     = headers_get (req_headers (request_of ''POST'' ''/api/data'' []
       [(''AUTHORIZATION'', ''Basic dG9tOjEyMzQ=''), (''Cookie'', ''a=b'')])) ''Authorization''"
    by code_simp
  have m: "req_method (request_of ''GET'' ''/api/data'' ''?a=1''
       [(''Accept'', ''*/*''), (''authorization'', ''Basic dG9tOjEyMzQ='')])
     \<noteq> req_method (request_of ''POST'' ''/api/data'' []
       [(''AUTHORIZATION'', ''Basic dG9tOjEyMzQ=''), (''Cookie'', ''a=b'')])"
    by (simp add: request_of_def)
  from fetch_reads_pathname_and_authorization_only [OF path auth, of example_secrets] m
  show ?thesis by simp
qed

text \<open>
  Claim C10 (totality). For every request the handler returns one of its three
  responses, so the status is 200, 401 or 404. No call of the handler can throw: the
  base64 decoder of \<^verbatim>\<open>Buffer\<close>, \<^verbatim>\<open>toString\<close>, \<^verbatim>\<open>split\<close> and \<^verbatim>\<open>JSON.stringify\<close> of a
  string return for every input, which is why the embedding has no error value.
\<close>

theorem fetch_total:
  "(fetch env request = not_found \<or> fetch env request = challenge
      \<or> fetch env request = Response_json (Some (USER_NAME env)))
   \<and> status (fetch env request) \<in> {200, 401, 404}"
  by (simp add: fetch_def challenge_def not_found_def Response_json_def Let_def
        split: option.splits prod.splits)

text \<open>
  Witness for C10: an empty header value, and a header value that is not base64 at all.
\<close>

theorem fetch_total_witness:
  "status (fetch example_secrets (GET_api_data [])) = 401
   \<and> status (fetch example_secrets (GET_api_data ''Basic !!!'')) \<in> {200, 401, 404}"
proof -
  have "status (fetch example_secrets (GET_api_data [])) = 401"
    by code_simp
  with fetch_total [of example_secrets "GET_api_data ''Basic !!!''"] show ?thesis
    by simp
qed

end
